theory Spec2Isabelle
  imports Complex_Main
begin

section \<open>Python values and errors\<close>

text \<open>
  The two notebooks are Python. An exception is a value of \<open>py_error\<close>; a call that
  writes to standard output and then returns or raises is a pair of the lines printed
  and the outcome. Floating-point scores are modelled as real numbers: the code only
  compares them, and the comparison of non-NaN floats is the order of the reals.
\<close>

datatype py_error = KeyError | IndexError | ValueError

datatype retval = Str string | NoneVal

text \<open>
  The lines printed are titles, values of the type \<open>'s\<close> of the strings of the data;
  the only string a function of the notebooks returns is a literal of the source.
\<close>

type_synonym 's run = "'s list \<times> (py_error + retval)"

subsection \<open>\<open>str.lower\<close>\<close>

text \<open>
  \<open>str.lower\<close>, and \<open>.str.lower()\<close> of pandas, which applies it to every element of a
  column, lower-case a string by the Unicode case tables of the Python runtime. The
  tables are not part of the repository: in the functions below lower-casing is the
  parameter \<open>lower\<close>, and a theorem that mentions \<open>lower\<close> holds for every function.

  \<open>latin1_lower\<close> is \<open>str.lower\<close> on the strings of type \<open>string\<close>, whose characters
  are the code points 0 to 255: the capitals are the codes 65 to 90, 192 to 214 and 216
  to 222, and each has its small letter 32 places later. The examples use it.
\<close>

definition latin1_lower_char :: "char \<Rightarrow> char" where
  "latin1_lower_char c =
     (let n = (of_char c :: nat)
      in if (65 \<le> n \<and> n \<le> 90) \<or> (192 \<le> n \<and> n \<le> 214) \<or> (216 \<le> n \<and> n \<le> 222)
         then char_of (n + 32) else c)"

definition latin1_lower :: "string \<Rightarrow> string" where
  "latin1_lower s = map latin1_lower_char s"

subsection \<open>\<open>sorted(xs, reverse=True, key=k)\<close>\<close>

text \<open>
  Python's \<open>sorted\<close> is stable, and stays stable under \<open>reverse=True\<close>: the result is
  in descending key order and elements of equal key keep their order in \<open>xs\<close>. The
  insertion below puts \<open>x\<close>, which precedes every element already inserted, in front of
  the first element whose key is not larger.
\<close>

fun insort_desc :: "('a \<Rightarrow> 'k::linorder) \<Rightarrow> 'a \<Rightarrow> 'a list \<Rightarrow> 'a list" where
  "insort_desc k x [] = [x]"
| "insort_desc k x (y # ys) = (if k y \<le> k x then x # y # ys else y # insort_desc k x ys)"

definition sorted_reverse :: "('a \<Rightarrow> 'k::linorder) \<Rightarrow> 'a list \<Rightarrow> 'a list" where
  "sorted_reverse k xs = foldr (insort_desc k) xs []"

section \<open>Movie recommender: the \<open>recommend\<close> function\<close>

text \<open>
  \<open>new\<close> is the data frame \<open>movies[['movie_id','title','tags']]\<close>. A row carries its
  index label: \<open>merge\<close> numbers the rows \<open>0, 1, 2, ...\<close>, and \<open>dropna(inplace=True)\<close>
  removes rows without renumbering the rest. \<open>similarity\<close> is the matrix returned by
  \<open>cosine_similarity(vectors)\<close>, a list of rows. \<open>'s\<close> is the type of the strings in
  the frame.
\<close>

record 's new_row =
  label :: nat
  movie_id :: int
  title :: "'s"
  tags :: "'s"

definition not_found :: string where
  "not_found = ''Movie not found. Please check the spelling.''"

text \<open>
  \<^verbatim>\<open>movies_list = sorted(list(enumerate(distances)),reverse=True,key=lambda x:x[1])[1:6]\<close>
\<close>

definition movies_list :: "real list \<Rightarrow> (nat \<times> real) list" where
  "movies_list distances = take 5 (drop 1 (sorted_reverse snd (enumerate 0 distances)))"

text \<open>
  \<^verbatim>\<open>for i in movies_list: print(new.iloc[i[0]].title)\<close>
  \<open>iloc\<close> is positional and raises IndexError past the last row; the function then
  falls off its end and returns \<open>None\<close>.
\<close>

fun print_titles :: "'s new_row list \<Rightarrow> (nat \<times> real) list \<Rightarrow> 's run" where
  "print_titles new [] = ([], Inr NoneVal)"
| "print_titles new (i # rest) =
     (if fst i < length new
      then (case print_titles new rest of (out, r) \<Rightarrow> (title (new ! fst i) # out, r))
      else ([], Inl IndexError))"

text \<open>
  \<^verbatim>\<open>
  def recommend(movie):
      movie = movie.lower()
      if movie not in new['title'].str.lower().values:
          return "Movie not found. Please check the spelling."
      index = new[new['title'].str.lower() == movie].index[0]
      distances = similarity[index]
      movies_list = sorted(...)[1:6]
      for i in movies_list:
          print(new.iloc[i[0]].title)
  \<close>
  \<open>.index[0]\<close> is the index label of the first matching row; \<open>similarity[index]\<close> uses
  it as a row position of the matrix and raises IndexError when there is no such row.
\<close>

definition recommend ::
  "('s \<Rightarrow> 's) \<Rightarrow> 's new_row list \<Rightarrow> real list list \<Rightarrow> 's \<Rightarrow> 's run" where
  "recommend lower new similarity movie0 =
     (let movie = lower movie0 in
      if movie \<notin> set (map (\<lambda>r. lower (title r)) new)
      then ([], Inr (Str not_found))
      else (case filter (\<lambda>r. lower (title r) = movie) new of
              [] \<Rightarrow> ([], Inl IndexError)
            | r # _ \<Rightarrow>
                (let index = label r in
                 if index < length similarity
                 then print_titles new (movies_list (similarity ! index))
                 else ([], Inl IndexError))))"

subsection \<open>Example corpora\<close>

definition mk_row :: "nat \<Rightarrow> string \<Rightarrow> string new_row" where
  "mk_row l t = \<lparr>label = l, movie_id = int l, title = t, tags = []\<rparr>"

definition abc_new :: "string new_row list" where
  "abc_new = [mk_row 0 ''A'', mk_row 1 ''B'', mk_row 2 ''C'']"

definition abc_similarity :: "real list list" where
  "abc_similarity = [[1, 1/2, 0], [1/2, 1, 0], [0, 0, 1]]"

definition dup_new :: "string new_row list" where
  "dup_new = [mk_row 0 ''a'', mk_row 1 ''b'']"

definition dup_similarity :: "real list list" where
  "dup_similarity = [[1, 1], [1, 1]]"

text \<open>
  A frame whose row with label 1 was removed by \<open>dropna\<close>, and the matrix of its two
  remaining movies.
\<close>

definition gap_new :: "string new_row list" where
  "gap_new = [mk_row 0 ''A'', mk_row 2 ''C'']"

definition gap_similarity :: "real list list" where
  "gap_similarity = [[1, 0], [0, 1]]"


subsection \<open>The ranking order\<close>

text \<open>
  \<open>ranks_before x y\<close>: the entry \<open>x = (index, score)\<close> has the larger score, or the
  same score and the smaller index.
\<close>

definition ranks_before :: "nat \<times> real \<Rightarrow> nat \<times> real \<Rightarrow> bool" where
  "ranks_before x y \<longleftrightarrow> snd y < snd x \<or> (snd x = snd y \<and> fst x < fst y)"

section \<open>Movie recommender: feature engineering\<close>

text \<open>
  The columns \<open>genres\<close>, \<open>keywords\<close>, \<open>cast\<close> and \<open>crew\<close> hold the text of a list of
  dictionaries; \<open>ast.literal_eval\<close> parses it. The model starts from the parsed list.
  A dictionary is a map; only its keys \<open>'name'\<close> and \<open>'job'\<close> are read, both strings,
  and reading a missing key raises KeyError.
\<close>

type_synonym entry = "string \<rightharpoonup> string"

text \<open>
  \<^verbatim>\<open>
  def extract_names(obj):
      L = []
      for i in ast.literal_eval(obj):
          L.append(i['name'])
      return L
  \<close>
\<close>

fun extract_names_loop :: "entry list \<Rightarrow> string list \<Rightarrow> py_error + string list" where
  "extract_names_loop [] L = Inr L"
| "extract_names_loop (i # rest) L =
     (case i ''name'' of
        None \<Rightarrow> Inl KeyError
      | Some n \<Rightarrow> extract_names_loop rest (L @ [n]))"

definition extract_names :: "entry list \<Rightarrow> py_error + string list" where
  "extract_names obj = extract_names_loop obj []"

text \<open>
  \<^verbatim>\<open>
  def extract_cast(obj):
      L = []
      counter = 0
      for i in ast.literal_eval(obj):
          if counter < 3:
              L.append(i['name'])
              counter += 1
          else:
              break
      return L
  \<close>
\<close>

fun extract_cast_loop :: "entry list \<Rightarrow> string list \<Rightarrow> nat \<Rightarrow> py_error + string list" where
  "extract_cast_loop [] L counter = Inr L"
| "extract_cast_loop (i # rest) L counter =
     (if counter < 3
      then (case i ''name'' of
              None \<Rightarrow> Inl KeyError
            | Some n \<Rightarrow> extract_cast_loop rest (L @ [n]) (counter + 1))
      else Inr L)"

definition extract_cast :: "entry list \<Rightarrow> py_error + string list" where
  "extract_cast obj = extract_cast_loop obj [] 0"

text \<open>
  \<^verbatim>\<open>
  def extract_director(obj):
      L = []
      for i in ast.literal_eval(obj):
          if i['job'] == 'Director':
              L.append(i['name'])
              break
      return L
  \<close>
\<close>

fun extract_director_loop :: "entry list \<Rightarrow> string list \<Rightarrow> py_error + string list" where
  "extract_director_loop [] L = Inr L"
| "extract_director_loop (i # rest) L =
     (case i ''job'' of
        None \<Rightarrow> Inl KeyError
      | Some j \<Rightarrow>
          (if j = ''Director''
           then (case i ''name'' of
                   None \<Rightarrow> Inl KeyError
                 | Some n \<Rightarrow> Inr (L @ [n]))
           else extract_director_loop rest L))"

definition extract_director :: "entry list \<Rightarrow> py_error + string list" where
  "extract_director obj = extract_director_loop obj []"

subsection \<open>\<open>str.split()\<close>, \<open>str.replace(" ","")\<close> and \<open>" ".join\<close>\<close>

text \<open>
  \<open>split()\<close> without arguments cuts at runs of white space and yields no empty word.
  Which characters are white space is a table of the Python runtime: it is the parameter
  \<open>is_space\<close>, and a theorem that mentions it holds for every predicate.

  \<open>latin1_space\<close> is that table on the characters of type \<open>char\<close>, the code points 0
  to 255: the codes 9 to 13, 28 to 32, 133 and 160. The examples use it.
\<close>

definition latin1_space :: "char \<Rightarrow> bool" where
  "latin1_space c =
     (let n = (of_char c :: nat)
      in (9 \<le> n \<and> n \<le> 13) \<or> (28 \<le> n \<and> n \<le> 32) \<or> n = 133 \<or> n = 160)"

fun split_loop :: "(char \<Rightarrow> bool) \<Rightarrow> string \<Rightarrow> string \<Rightarrow> string list" where
  "split_loop is_space [] w = (if w = [] then [] else [w])"
| "split_loop is_space (c # cs) w =
     (if is_space c
      then (if w = [] then split_loop is_space cs [] else w # split_loop is_space cs [])
      else split_loop is_space cs (w @ [c]))"

definition split :: "(char \<Rightarrow> bool) \<Rightarrow> string \<Rightarrow> string list" where
  "split is_space s = split_loop is_space s []"

definition remove_spaces :: "string \<Rightarrow> string" where
  "remove_spaces s = filter (\<lambda>c. c \<noteq> CHR '' '') s"

fun join :: "string \<Rightarrow> string list \<Rightarrow> string" where
  "join sep [] = []"
| "join sep [x] = x"
| "join sep (x # y # rest) = x @ sep @ join sep (y # rest)"

subsection \<open>From a movie row to its tags\<close>

text \<open>
  A row of \<open>movies\<close> after the merge and \<open>dropna\<close>, with the four list columns parsed
  (\<open>keywords_col\<close> is the column \<open>keywords\<close>).
\<close>

record movie_row =
  row_label :: nat
  row_movie_id :: int
  row_title :: string
  overview :: string
  genres :: "entry list"
  keywords_col :: "entry list"
  cast :: "entry list"
  crew :: "entry list"

text \<open>
  \<^verbatim>\<open>
  movies['overview'] = movies['overview'].apply(lambda x: x.split())
  movies['genres'] = movies['genres'].apply(lambda x: [i.replace(" ","") for i in x])
  (the same for keywords, cast and crew)
  movies['tags'] = movies['overview'] + movies['genres'] + movies['keywords']
                   + movies['cast'] + movies['crew']
  \<close>
  The tag bag of one row; the first KeyError of the four extractions, in the order the
  notebook runs them, is the error of the row.
\<close>

definition tag_bag :: "(char \<Rightarrow> bool) \<Rightarrow> movie_row \<Rightarrow> py_error + string list" where
  "tag_bag is_space m =
     (case extract_names (genres m) of
        Inl e \<Rightarrow> Inl e
      | Inr g \<Rightarrow>
          (case extract_names (keywords_col m) of
             Inl e \<Rightarrow> Inl e
           | Inr k \<Rightarrow>
               (case extract_cast (cast m) of
                  Inl e \<Rightarrow> Inl e
                | Inr c \<Rightarrow>
                    (case extract_director (crew m) of
                       Inl e \<Rightarrow> Inl e
                     | Inr d \<Rightarrow>
                         Inr (split is_space (overview m) @ map remove_spaces g
                                @ map remove_spaces k @ map remove_spaces c
                                @ map remove_spaces d)))))"

text \<open>
  \<^verbatim>\<open>
  new = movies[['movie_id','title','tags']]
  new['tags'] = new['tags'].apply(lambda x: " ".join(x))
  new['tags'] = new['tags'].apply(lambda x: x.lower())
  \<close>
\<close>

definition new_of ::
  "(string \<Rightarrow> string) \<Rightarrow> (char \<Rightarrow> bool) \<Rightarrow> movie_row \<Rightarrow> py_error + string new_row" where
  "new_of lower is_space m =
     (case tag_bag is_space m of
        Inl e \<Rightarrow> Inl e
      | Inr ts \<Rightarrow>
          Inr \<lparr>label = row_label m, movie_id = row_movie_id m, title = row_title m,
               tags = lower (join '' '' ts)\<rparr>)"

subsection \<open>An example row\<close>

definition person :: "string \<Rightarrow> string \<Rightarrow> entry" where
  "person n j = [''name'' \<mapsto> n, ''job'' \<mapsto> j]"

definition named :: "string \<Rightarrow> entry" where
  "named n = [''name'' \<mapsto> n]"

definition heat :: movie_row where
  "heat = \<lparr>row_label = 0, row_movie_id = 949, row_title = ''Heat'',
            overview = ''Cops  and robbers'',
            genres = [named ''Crime''],
            keywords_col = [named ''bank robbery''],
            cast = [named ''Al Pacino'', named ''Robert De Niro'', named ''Val Kilmer'',
                    named ''Jon Voight''],
            crew = [person ''Art Linson'' ''Producer'', person ''Michael Mann'' ''Director'',
                    person ''Second Unit'' ''Director'']\<rparr>"

section \<open>Spam classifier: labels\<close>

text \<open>
  A row of \<open>mail_data.csv\<close>; \<open>None\<close> is a missing cell.
  \<^verbatim>\<open>
  df.dropna(inplace=True)
  df.drop_duplicates(inplace=True)
  \<close>
  \<open>drop_duplicates\<close> keeps the first of equal rows.
\<close>

record mail =
  Category :: "string option"
  Message :: "string option"

definition dropna :: "mail list \<Rightarrow> mail list" where
  "dropna df = filter (\<lambda>r. Category r \<noteq> None \<and> Message r \<noteq> None) df"

fun drop_duplicates_loop :: "mail list \<Rightarrow> mail list \<Rightarrow> mail list" where
  "drop_duplicates_loop seen [] = []"
| "drop_duplicates_loop seen (r # rest) =
     (if r \<in> set seen then drop_duplicates_loop seen rest
      else r # drop_duplicates_loop (r # seen) rest)"

definition drop_duplicates :: "mail list \<Rightarrow> mail list" where
  "drop_duplicates df = drop_duplicates_loop [] df"

text \<open>
  \<^verbatim>\<open>df["label"] = df["Category"].map({"spam": 1, "ham": 0})\<close>
  \<open>Series.map\<close> with a dictionary looks every value up; a value that is not a key, and
  a missing value, give the missing value NaN, here \<open>None\<close>.
\<close>

definition label_dict :: "string \<rightharpoonup> int" where
  "label_dict = [''spam'' \<mapsto> 1, ''ham'' \<mapsto> 0]"

definition map_label :: "string option \<Rightarrow> int option" where
  "map_label c = (case c of None \<Rightarrow> None | Some s \<Rightarrow> label_dict s)"

text \<open>
  The frame when \<open>train_test_split(X, df["label"], ...)\<close> is called: the cleaned rows,
  each with its label. \<open>X = vectorizer.fit_transform(df["Message"])\<close> has one row per
  message of \<open>split_messages\<close>; \<open>split_labels\<close> is the second argument.
\<close>

definition labelled :: "mail list \<Rightarrow> (mail \<times> int option) list" where
  "labelled raw = map (\<lambda>r. (r, map_label (Category r))) (drop_duplicates (dropna raw))"

definition split_messages :: "mail list \<Rightarrow> string option list" where
  "split_messages raw = map (\<lambda>p. Message (fst p)) (labelled raw)"

definition split_labels :: "mail list \<Rightarrow> int option list" where
  "split_labels raw = map snd (labelled raw)"

definition promo :: mail where
  "promo = \<lparr>Category = Some ''Spam'', Message = Some ''win now''\<rparr>"

definition mails :: "mail list" where
  "mails = [\<lparr>Category = Some ''ham'', Message = Some ''hello''\<rparr>,
            promo,
            \<lparr>Category = Some ''spam'', Message = Some ''free prize''\<rparr>,
            \<lparr>Category = None, Message = Some ''lost''\<rparr>,
            \<lparr>Category = Some ''ham'', Message = Some ''hello''\<rparr>]"

section \<open>TF-IDF weighting\<close>

text \<open>
  Both notebooks build their vectors with scikit-learn:
  \<^verbatim>\<open>TfidfVectorizer(max_features=5000, stop_words='english')\<close> and
  \<^verbatim>\<open>TfidfVectorizer(min_df=1, stop_words='english')\<close>, then \<open>fit_transform\<close>.
  Neither call sets \<open>use_idf\<close>, \<open>smooth_idf\<close>, \<open>sublinear_tf\<close> or \<open>norm\<close>, so the
  library's defaults apply: raw term counts, the smoothed inverse document frequency
  \<open>ln((1 + n) / (1 + df)) + 1\<close>, and rows scaled to Euclidean length 1, a row of
  zeros staying as it is. The definitions follow that documented behaviour of the
  library, with exact real arithmetic in place of 64-bit floats.

  The library's analyzer (lower-casing, tokens, stop words) and its choice of the
  vocabulary are not modelled: a document is the list of its terms after analysis,
  \<open>corpus\<close> is the list of the fitted documents and \<open>vocabulary\<close> the fitted terms in
  the order of their columns.
\<close>

definition tf :: "string \<Rightarrow> string list \<Rightarrow> nat" where
  "tf t d = count_list d t"

definition doc_freq :: "string list list \<Rightarrow> string \<Rightarrow> nat" where
  "doc_freq corpus t = length (filter (\<lambda>d. t \<in> set d) corpus)"

definition idf :: "string list list \<Rightarrow> string \<Rightarrow> real" where
  "idf corpus t = ln ((1 + real (length corpus)) / (1 + real (doc_freq corpus t))) + 1"

definition tfidf_row :: "string list list \<Rightarrow> string list \<Rightarrow> string list \<Rightarrow> real list" where
  "tfidf_row corpus vocabulary d = map (\<lambda>t. real (tf t d) * idf corpus t) vocabulary"

definition l2_norm :: "real list \<Rightarrow> real" where
  "l2_norm v = sqrt (\<Sum>x\<leftarrow>v. x * x)"

definition l2_normalize :: "real list \<Rightarrow> real list" where
  "l2_normalize v = (let n = l2_norm v in if n = 0 then v else map (\<lambda>x. x / n) v)"

definition transform :: "string list list \<Rightarrow> string list \<Rightarrow> string list \<Rightarrow> real list" where
  "transform corpus vocabulary d = l2_normalize (tfidf_row corpus vocabulary d)"

text \<open>
  \<open>fit_transform\<close> raises ValueError when the fitted vocabulary is empty: no document
  of the corpus has a term left after analysis.
\<close>

definition fit_transform :: "string list list \<Rightarrow> string list \<Rightarrow> py_error + real list list" where
  "fit_transform corpus vocabulary =
     (if vocabulary = [] then Inl ValueError
      else Inr (map (transform corpus vocabulary) corpus))"

definition two_docs :: "string list list" where
  "two_docs = [[''action'', ''hero''], [''action'', ''drama'']]"

definition two_vocabulary :: "string list" where
  "two_vocabulary = [''action'', ''drama'', ''hero'']"

section \<open>Properties of \<open>recommend\<close>\<close>

subsection \<open>The stable descending sort\<close>

lemma set_insort_desc: "set (insort_desc k x ys) = insert x (set ys)"
  by (induction ys) auto

lemma set_sorted_reverse: "set (sorted_reverse k xs) = set xs"
  unfolding sorted_reverse_def by (induction xs) (auto simp: set_insort_desc)

lemma ranks_before_trans: "ranks_before x y \<Longrightarrow> ranks_before y z \<Longrightarrow> ranks_before x z"
  unfolding ranks_before_def by auto

lemma sorted_wrt_insort_desc:
  assumes "sorted_wrt ranks_before ys" and "\<forall>y \<in> set ys. fst x < fst y"
  shows "sorted_wrt ranks_before (insort_desc snd x ys)"
  using assms
proof (induction ys)
  case Nil
  then show ?case by simp
next
  case (Cons y ys)
  show ?case
  proof (cases "snd y \<le> snd x")
    case True
    have xy: "ranks_before x y"
      using True Cons.prems(2) by (auto simp: ranks_before_def)
    have "\<forall>z \<in> set ys. ranks_before x z"
      using xy Cons.prems(1) by (auto intro: ranks_before_trans)
    with xy True Cons.prems(1) show ?thesis by simp
  next
    case False
    have yx: "ranks_before y x"
      using False by (auto simp: ranks_before_def)
    have "sorted_wrt ranks_before (insort_desc snd x ys)"
      using Cons by simp
    with yx False Cons.prems(1) show ?thesis
      by (auto simp: set_insort_desc)
  qed
qed

lemma sorted_wrt_sorted_reverse:
  "sorted_wrt (<) (map fst ps) \<Longrightarrow> sorted_wrt ranks_before (sorted_reverse snd ps)"
  unfolding sorted_reverse_def
proof (induction ps)
  case Nil
  then show ?case by simp
next
  case (Cons p ps)
  have "\<forall>y \<in> set (foldr (insort_desc snd) ps []). fst p < fst y"
    using Cons.prems set_sorted_reverse [of snd ps] by (auto simp: sorted_reverse_def)
  with Cons show ?case by (simp add: sorted_wrt_insort_desc)
qed

lemma map_fst_enumerate_sorted: "sorted_wrt (<) (map fst (enumerate n xs))"
  by (simp add: sorted_wrt_iff_nth_less)

subsection \<open>\<open>movies_list\<close> and the printing loop\<close>

lemma movies_list_ranked: "sorted_wrt ranks_before (movies_list distances)"
  unfolding movies_list_def
  by (intro sorted_wrt_take sorted_wrt_drop sorted_wrt_sorted_reverse map_fst_enumerate_sorted)

lemma set_movies_list: "set (movies_list distances) \<subseteq> set (enumerate 0 distances)"
  unfolding movies_list_def
  using set_take_subset set_drop_subset set_sorted_reverse by fast

lemma movies_list_entry:
  "i \<in> set (movies_list distances) \<Longrightarrow> fst i < length distances \<and> snd i = distances ! fst i"
  using set_movies_list [of distances] by (auto simp: in_set_enumerate_eq)

lemma length_movies_list: "length (movies_list distances) \<le> 5"
  by (simp add: movies_list_def)

lemma print_titles_ok:
  "\<forall>i \<in> set ml. fst i < length new \<Longrightarrow>
   print_titles new ml = (map (\<lambda>i. title (new ! fst i)) ml, Inr NoneVal)"
  by (induction ml) auto

lemma first_match:
  "filter P xs = r # rest \<Longrightarrow>
   \<exists>p < length xs. xs ! p = r \<and> P r \<and> (\<forall>q < p. \<not> P (xs ! q))"
proof (induction xs)
  case Nil
  then show ?case by simp
next
  case (Cons x xs)
  show ?case
  proof (cases "P x")
    case True
    with Cons.prems have "x = r" by simp
    with True show ?thesis by (intro exI [of _ 0]) simp
  next
    case False
    with Cons obtain p where p: "p < length xs" "xs ! p = r" "P r" "\<forall>q < p. \<not> P (xs ! q)"
      by auto
    have "\<forall>q < Suc p. \<not> P ((x # xs) ! q)"
      using False p(4) by (auto simp: nth_Cons split: nat.splits)
    with p show ?thesis by (intro exI [of _ "Suc p"]) simp
  qed
qed

subsection \<open>A title that is not in the corpus\<close>

text \<open>
  C1, as the code has it. When no title of the corpus equals the query after both are
  lower-cased, \<open>recommend\<close> prints nothing, raises nothing and returns the string
  \<open>Movie not found. Please check the spelling.\<close>: an error message as an ordinary
  string, not a value of a type of its own. This holds for every lower-casing function,
  so for the one of the Python runtime.
\<close>

theorem recommend_not_found:
  assumes "lower movie \<notin> set (map (\<lambda>r. lower (title r)) new)"
  shows "recommend lower new similarity movie =
           ([], Inr (Str ''Movie not found. Please check the spelling.''))"
  using assms by (simp add: recommend_def not_found_def)

theorem recommend_not_found_witness:
  "latin1_lower ''Nonexistent Movie'' \<notin> set (map (\<lambda>r. latin1_lower (title r)) abc_new) \<and>
   recommend latin1_lower abc_new abc_similarity ''Nonexistent Movie'' =
     ([], Inr (Str ''Movie not found. Please check the spelling.''))"
proof -
  have h: "latin1_lower ''Nonexistent Movie''
             \<notin> set (map (\<lambda>r. latin1_lower (title r)) abc_new)"
    by code_simp
  from h recommend_not_found [OF h] show ?thesis by simp
qed

text \<open>
  The claim C1 asks for a typed \<open>NotFound\<close> result in place of an error string. On the
  three-movie corpus the query \<open>Nonexistent Movie\<close> returns a string.
\<close>

theorem recommend_returns_error_string:
  "snd (recommend latin1_lower abc_new abc_similarity ''Nonexistent Movie'') =
     Inr (Str ''Movie not found. Please check the spelling.'')"
  by code_simp

subsection \<open>The query movie among its own recommendations\<close>

text \<open>
  C4 fails on the code. \<open>recommend\<close> drops the first entry of the ranking, whatever
  movie that is. Two movies with the same tags have the same vector, so every entry of
  their similarity matrix is the same number; the stable sort then ranks movie 0 first
  for both queries, and the query for movie 1 (\<open>b\<close>) prints \<open>b\<close> itself, whatever
  the lower-casing function is.
\<close>

theorem recommend_includes_query:
  "recommend lower dup_new dup_similarity ''b'' = ([''b''], Inr NoneVal)"
proof -
  have ml: "movies_list [1, 1] = [(1, 1)]"
    by code_simp
  show ?thesis
    by (cases "lower ''a'' = lower ''b''")
      (simp_all add: recommend_def dup_new_def dup_similarity_def mk_row_def ml)
qed

subsection \<open>Ties\<close>



subsection \<open>A title that is in the corpus\<close>

text \<open>
  C6, as the code has it. Let the rows of \<open>new\<close> carry the labels \<open>0, 1, 2, ...\<close> (no
  row was dropped), let \<open>similarity\<close> be a square matrix with one row per movie, and
  let the query match a title. Then \<open>recommend\<close> returns \<open>None\<close> and prints the titles
  of \<open>movies_list\<close> of the row of the first matching movie \<open>p\<close>: at most five titles,
  in descending order of their similarity to \<open>p\<close>. This holds for every lower-casing
  function, so for the one of the Python runtime.
\<close>

theorem recommend_found:
  assumes range_index: "map label new = [0..<length new]"
    and square: "length similarity = length new"
      "\<forall>row \<in> set similarity. length row = length new"
    and found: "lower movie \<in> set (map (\<lambda>r. lower (title r)) new)"
  shows "\<exists>p < length new.
           lower (title (new ! p)) = lower movie \<and>
           (\<forall>q < p. lower (title (new ! q)) \<noteq> lower movie) \<and>
           recommend lower new similarity movie =
             (map (\<lambda>i. title (new ! fst i)) (movies_list (similarity ! p)), Inr NoneVal) \<and>
           length (movies_list (similarity ! p)) \<le> 5 \<and>
           sorted_wrt (\<lambda>x y. snd y \<le> snd x) (movies_list (similarity ! p)) \<and>
           (\<forall>i \<in> set (movies_list (similarity ! p)).
              fst i < length new \<and> snd i = similarity ! p ! fst i)"
proof -
  let ?P = "\<lambda>r. lower (title r) = lower movie"
  from found have "filter ?P new \<noteq> []"
    by (auto simp: filter_empty_conv)
  then obtain r rest where f: "filter ?P new = r # rest"
    by (cases "filter ?P new") auto
  from first_match [OF f] obtain p where p: "p < length new" "new ! p = r" "?P r"
    "\<forall>q < p. \<not> ?P (new ! q)" by blast
  have "label (new ! p) = map label new ! p"
    using p(1) by simp
  also have "\<dots> = p"
    using p(1) by (simp add: range_index)
  finally have lab: "label r = p"
    using p(2) by simp
  let ?ml = "movies_list (similarity ! p)"
  have len: "length (similarity ! p) = length new"
    using square p(1) by simp
  have entries: "\<forall>i \<in> set ?ml. fst i < length new \<and> snd i = similarity ! p ! fst i"
    using movies_list_entry [of _ "similarity ! p"] len by auto
  have "recommend lower new similarity movie = print_titles new ?ml"
    using found f lab p(1) square(1) by (simp add: recommend_def)
  also have "\<dots> = (map (\<lambda>i. title (new ! fst i)) ?ml, Inr NoneVal)"
    using entries by (intro print_titles_ok) simp
  finally have rec: "recommend lower new similarity movie =
      (map (\<lambda>i. title (new ! fst i)) ?ml, Inr NoneVal)" .
  have "sorted_wrt (\<lambda>x y. snd y \<le> snd x) ?ml"
    using movies_list_ranked [of "similarity ! p"]
    by (rule sorted_wrt_mono_rel [rotated]) (auto simp: ranks_before_def)
  with p rec entries length_movies_list show ?thesis
    by blast
qed

text \<open>
  The hypothesis on the labels is needed: after \<open>dropna\<close> has removed the row with
  label 1, the label 2 of the second movie is not a row of the two-row matrix.
\<close>

lemma recommend_after_dropna:
  "recommend latin1_lower gap_new gap_similarity ''c'' = ([], Inl IndexError)"
  by code_simp

theorem recommend_found_witness:
  "map label abc_new = [0..<length abc_new] \<and>
   length abc_similarity = length abc_new \<and>
   list_all (\<lambda>row. length row = length abc_new) abc_similarity \<and>
   latin1_lower ''a'' \<in> set (map (\<lambda>r. latin1_lower (title r)) abc_new) \<and>
   (\<exists>p < length abc_new.
      latin1_lower (title (abc_new ! p)) = latin1_lower ''a'' \<and>
      recommend latin1_lower abc_new abc_similarity ''a'' =
        (map (\<lambda>i. title (abc_new ! fst i)) (movies_list (abc_similarity ! p)), Inr NoneVal) \<and>
      length (movies_list (abc_similarity ! p)) \<le> 5 \<and>
      sorted_wrt (\<lambda>x y. snd y \<le> snd x) (movies_list (abc_similarity ! p)))"
proof -
  have h1: "map label abc_new = [0..<length abc_new]"
    by code_simp
  have h2: "length abc_similarity = length abc_new"
    by code_simp
  have h3': "list_all (\<lambda>row. length row = length abc_new) abc_similarity"
    by code_simp
  then have h3: "\<forall>row \<in> set abc_similarity. length row = length abc_new"
    by (simp add: list_all_iff)
  have h4: "latin1_lower ''a'' \<in> set (map (\<lambda>r. latin1_lower (title r)) abc_new)"
    by code_simp
  from recommend_found [OF h1 h2 h3 h4] h1 h2 h3' h4 show ?thesis
    by blast
qed

text \<open>
  The claim C6 has \<open>recommend\<close> return the sequence of titles. On the three-movie
  corpus the query \<open>a\<close> returns \<open>None\<close>; the two titles go to standard output.
\<close>

theorem recommend_returns_none:
  "recommend latin1_lower abc_new abc_similarity ''a'' = ([''B'', ''C''], Inr NoneVal)"
  by code_simp

section \<open>Properties of the feature engineering\<close>

lemma extract_names_loop_Inr:
  "extract_names_loop obj L = Inr g \<Longrightarrow>
   \<exists>g'. g = L @ g' \<and> map Some g' = map (\<lambda>e. e ''name'') obj"
proof (induction obj arbitrary: L)
  case Nil
  then show ?case by simp
next
  case (Cons i rest)
  then show ?case
    by (cases "i ''name''") fastforce+
qed

lemma extract_cast_loop_Inr:
  "extract_cast_loop obj L n = Inr c \<Longrightarrow>
   \<exists>c'. c = L @ c' \<and> map Some c' = map (\<lambda>e. e ''name'') (take (3 - n) obj)"
proof (induction obj arbitrary: L n)
  case Nil
  then show ?case by simp
next
  case (Cons i rest)
  show ?case
  proof (cases "n < 3")
    case True
    then obtain k where k: "3 - n = Suc k" "3 - (n + 1) = k"
      by (cases "3 - n") auto
    from True Cons.prems obtain nm where nm: "i ''name'' = Some nm"
      and step: "extract_cast_loop rest (L @ [nm]) (n + 1) = Inr c"
      by (cases "i ''name''") auto
    from Cons.IH [OF step] k nm show ?thesis
      by auto
  next
    case False
    with Cons.prems show ?thesis by simp
  qed
qed

lemma extract_director_loop_Inr:
  "extract_director_loop obj L = Inr d \<Longrightarrow>
   \<exists>d'. d = L @ d' \<and>
     map Some d' = (case find (\<lambda>e. e ''job'' = Some ''Director'') obj of
                      None \<Rightarrow> [] | Some e \<Rightarrow> [e ''name''])"
proof (induction obj arbitrary: L)
  case Nil
  then show ?case by simp
next
  case (Cons i rest)
  from Cons.prems obtain j where j: "i ''job'' = Some j"
    by (cases "i ''job''") auto
  show ?case
  proof (cases "j = ''Director''")
    case True
    with Cons.prems j show ?thesis
      by (cases "i ''name''") auto
  next
    case False
    with Cons.prems j have "extract_director_loop rest L = Inr d"
      by simp
    from Cons.IH [OF this] False j show ?thesis
      by simp
  qed
qed

text \<open>
  C9. Whenever the tag bag of a movie row is built, it is the words of the overview,
  the genre names and the keyword names, followed by the names of the first three
  entries of \<open>cast\<close>, in their order, and by the name of the first entry of \<open>crew\<close>
  whose job is \<open>Director\<close>, if there is one; each name with its spaces removed.
  No other cast or crew entry contributes.
\<close>

theorem tag_bag_cast_crew:
  assumes "tag_bag is_space m = Inr ts"
  shows "\<exists>g k c d.
           ts = split is_space (overview m) @ map remove_spaces g @ map remove_spaces k
                  @ map remove_spaces c @ map remove_spaces d \<and>
           map Some g = map (\<lambda>e. e ''name'') (genres m) \<and>
           map Some k = map (\<lambda>e. e ''name'') (keywords_col m) \<and>
           map Some c = map (\<lambda>e. e ''name'') (take 3 (cast m)) \<and>
           map Some d = (case find (\<lambda>e. e ''job'' = Some ''Director'') (crew m) of
                           None \<Rightarrow> [] | Some e \<Rightarrow> [e ''name'']) \<and>
           length c \<le> 3 \<and> length d \<le> 1"
proof -
  from assms obtain g k c d where
    g: "extract_names (genres m) = Inr g" and
    k: "extract_names (keywords_col m) = Inr k" and
    c: "extract_cast (cast m) = Inr c" and
    d: "extract_director (crew m) = Inr d" and
    ts: "ts = split is_space (overview m) @ map remove_spaces g @ map remove_spaces k
                @ map remove_spaces c @ map remove_spaces d"
    by (auto simp: tag_bag_def split: sum.splits)
  have g': "map Some g = map (\<lambda>e. e ''name'') (genres m)"
    using extract_names_loop_Inr [of "genres m" "[]" g] g by (simp add: extract_names_def)
  have k': "map Some k = map (\<lambda>e. e ''name'') (keywords_col m)"
    using extract_names_loop_Inr [of "keywords_col m" "[]" k] k by (simp add: extract_names_def)
  have c': "map Some c = map (\<lambda>e. e ''name'') (take 3 (cast m))"
    using extract_cast_loop_Inr [of "cast m" "[]" 0 c] c by (simp add: extract_cast_def)
  have d': "map Some d = (case find (\<lambda>e. e ''job'' = Some ''Director'') (crew m) of
                           None \<Rightarrow> [] | Some e \<Rightarrow> [e ''name''])"
    using extract_director_loop_Inr [of "crew m" "[]" d] d by (simp add: extract_director_def)
  have "length (map Some c) \<le> 3"
    unfolding c' by simp
  then have lc: "length c \<le> 3" by simp
  have "length (map Some d) \<le> 1"
    unfolding d' by (simp split: option.splits)
  then have ld: "length d \<le> 1" by simp
  from ts g' k' c' d' lc ld show ?thesis by blast
qed

theorem tag_bag_cast_crew_witness:
  "tag_bag latin1_space heat =
     Inr [''Cops'', ''and'', ''robbers'', ''Crime'', ''bankrobbery'',
          ''AlPacino'', ''RobertDeNiro'', ''ValKilmer'', ''MichaelMann''] \<and>
   (\<exists>c d. map Some c = map (\<lambda>e. e ''name'') (take 3 (cast heat)) \<and>
      map Some d = (case find (\<lambda>e. e ''job'' = Some ''Director'') (crew heat) of
                      None \<Rightarrow> [] | Some e \<Rightarrow> [e ''name'']) \<and>
      length c \<le> 3 \<and> length d \<le> 1)"
proof -
  have h: "tag_bag latin1_space heat =
     Inr [''Cops'', ''and'', ''robbers'', ''Crime'', ''bankrobbery'',
          ''AlPacino'', ''RobertDeNiro'', ''ValKilmer'', ''MichaelMann'']"
    by code_simp
  from tag_bag_cast_crew [OF h] h show ?thesis
    by blast
qed

section \<open>Properties of the spam labels\<close>

lemma set_drop_duplicates_loop: "set (drop_duplicates_loop seen rows) = set rows - set seen"
  by (induction rows arbitrary: seen) auto

lemma set_drop_duplicates: "set (drop_duplicates rows) = set rows"
  by (simp add: drop_duplicates_def set_drop_duplicates_loop)

lemma set_cleaned:
  "set (drop_duplicates (dropna raw)) = {r \<in> set raw. Category r \<noteq> None \<and> Message r \<noteq> None}"
  by (simp add: set_drop_duplicates dropna_def)

text \<open>
  C10. The label of \<open>spam\<close> is 1 and the label of \<open>ham\<close> is 0; every other category
  gets the missing label and no error. Every row of the file with a category and a
  message, whatever the category, is in the frame handed to \<open>train_test_split\<close>, with
  that label; labels and messages are equally many.
\<close>

theorem label_conversion:
  "map_label (Some ''spam'') = Some 1 \<and>
   map_label (Some ''ham'') = Some 0 \<and>
   (\<forall>c. c \<noteq> ''spam'' \<and> c \<noteq> ''ham'' \<longrightarrow> map_label (Some c) = None) \<and>
   (\<forall>r \<in> set raw. Category r \<noteq> None \<and> Message r \<noteq> None \<longrightarrow>
      (r, map_label (Category r)) \<in> set (labelled raw)) \<and>
   length (split_labels raw) = length (split_messages raw)"
proof -
  have "(r, map_label (Category r)) \<in> set (labelled raw)"
    if "r \<in> set raw" "Category r \<noteq> None" "Message r \<noteq> None" for r
  proof -
    from that have "r \<in> set (drop_duplicates (dropna raw))"
      by (simp add: set_cleaned)
    then show ?thesis
      unfolding labelled_def by (simp add: image_iff)
  qed
  then show ?thesis
    by (simp add: map_label_def label_dict_def split_labels_def split_messages_def)
qed

theorem label_conversion_witness:
  "promo \<in> set mails \<and> Category promo \<noteq> None \<and> Message promo \<noteq> None \<and>
   map_label (Category promo) = None \<and>
   (promo, None) \<in> set (labelled mails) \<and>
   length (split_labels mails) = length (split_messages mails)"
proof -
  have h: "promo \<in> set mails" "Category promo \<noteq> None" "Message promo \<noteq> None"
    by (simp_all add: mails_def promo_def)
  have n: "map_label (Category promo) = None"
    by (simp add: promo_def map_label_def label_dict_def)
  from label_conversion [of mails] h have "(promo, map_label (Category promo)) \<in> set (labelled mails)"
    by blast
  with h n label_conversion [of mails] show ?thesis
    by simp
qed

section \<open>Properties of the TF-IDF weighting\<close>

lemma fit_transform_rows:
  "vocabulary \<noteq> [] \<Longrightarrow>
   fit_transform corpus vocabulary = Inr (map (transform corpus vocabulary) corpus)"
  by (simp add: fit_transform_def)

lemma doc_freq_le_length: "doc_freq corpus t \<le> length corpus"
  by (simp add: doc_freq_def)

lemma idf_ge_1: "1 \<le> idf corpus t"
proof -
  have "1 + real (doc_freq corpus t) \<le> 1 + real (length corpus)"
    using doc_freq_le_length [of corpus t] by simp
  then have "1 \<le> (1 + real (length corpus)) / (1 + real (doc_freq corpus t))"
    by (simp add: le_divide_eq)
  then have "0 \<le> ln ((1 + real (length corpus)) / (1 + real (doc_freq corpus t)))"
    by simp
  then show ?thesis by (simp add: idf_def)
qed

lemma sum_squares_nonneg: "0 \<le> (\<Sum>x\<leftarrow>v. x * x)" for v :: "real list"
  by (induction v) auto

lemma sum_squares_zero_iff: "(\<Sum>x\<leftarrow>v. x * x) = 0 \<longleftrightarrow> (\<forall>x \<in> set v. x = 0)" for v :: "real list"
proof (induction v)
  case Nil
  then show ?case by simp
next
  case (Cons a v)
  have "a * a + (\<Sum>x\<leftarrow>v. x * x) = 0 \<longleftrightarrow> a * a = 0 \<and> (\<Sum>x\<leftarrow>v. x * x) = 0"
    using sum_squares_nonneg [of v] by (intro add_nonneg_eq_0_iff) simp_all
  with Cons show ?case by simp
qed

lemma l2_norm_zero_iff: "l2_norm v = 0 \<longleftrightarrow> (\<forall>x \<in> set v. x = 0)"
  by (simp add: l2_norm_def sum_squares_zero_iff)

lemma sum_squares_scale:
  "(\<Sum>x\<leftarrow>map (\<lambda>x. x / n) v. x * x) = (\<Sum>x\<leftarrow>v. x * x) / (n * n)" for v :: "real list"
  by (induction v) (simp_all add: add_divide_distrib)

lemma l2_norm_scale:
  "l2_norm (map (\<lambda>x. x / n) v) = sqrt ((\<Sum>x\<leftarrow>v. x * x) / (n * n))"
  by (simp only: l2_norm_def sum_squares_scale)

lemma l2_norm_normalize:
  assumes "l2_norm v \<noteq> 0"
  shows "l2_norm (l2_normalize v) = 1"
proof -
  let ?s = "\<Sum>x\<leftarrow>v. x * x"
  have pos: "0 < ?s"
    using assms sum_squares_nonneg [of v] by (auto simp: l2_norm_def less_le)
  have "l2_normalize v = map (\<lambda>x. x / sqrt ?s) v"
    using assms by (simp add: l2_normalize_def Let_def l2_norm_def)
  then have "l2_norm (l2_normalize v) = sqrt (?s / (sqrt ?s * sqrt ?s))"
    by (simp only: l2_norm_scale)
  also have "sqrt ?s * sqrt ?s = ?s"
    using pos by simp
  also have "sqrt (?s / ?s) = 1"
    using pos by simp
  finally show ?thesis .
qed

lemma tfidf_row_zero:
  assumes "set d \<inter> set vocabulary = {}"
  shows "tfidf_row corpus vocabulary d = replicate (length vocabulary) 0"
proof -
  have "\<forall>t \<in> set vocabulary. real (tf t d) * idf corpus t = 0"
    using assms by (auto simp: tf_def count_list_0_iff)
  then have "tfidf_row corpus vocabulary d = map (\<lambda>t. 0) vocabulary"
    unfolding tfidf_row_def by (intro map_cong) auto
  then show ?thesis by (simp add: map_replicate_const)
qed

lemma tfidf_row_nonzero:
  assumes "t \<in> set vocabulary" and "t \<in> set d"
  shows "l2_norm (tfidf_row corpus vocabulary d) \<noteq> 0"
proof -
  have "0 < count_list d t"
    using assms(2) by (simp add: count_list_0_iff zero_less_iff_neq_zero)
  moreover have "0 < idf corpus t"
    using idf_ge_1 [of corpus t] by simp
  ultimately have "real (tf t d) * idf corpus t \<noteq> 0"
    by (simp add: tf_def)
  moreover have "real (tf t d) * idf corpus t \<in> set (tfidf_row corpus vocabulary d)"
    using assms(1) by (auto simp: tfidf_row_def)
  ultimately show ?thesis
    unfolding l2_norm_zero_iff by blast
qed

text \<open>
  C2, in exact arithmetic. A document with at least one term of the vocabulary is
  transformed to a vector of Euclidean norm 1; a document with no term of the
  vocabulary is transformed to the vector of zeros.
\<close>

theorem transform_unit_norm:
  "(set d \<inter> set vocabulary \<noteq> {} \<longrightarrow> l2_norm (transform corpus vocabulary d) = 1) \<and>
   (set d \<inter> set vocabulary = {} \<longrightarrow>
      transform corpus vocabulary d = replicate (length vocabulary) 0)"
proof (intro conjI impI)
  assume "set d \<inter> set vocabulary \<noteq> {}"
  then obtain t where "t \<in> set vocabulary" "t \<in> set d"
    by auto
  then have "l2_norm (tfidf_row corpus vocabulary d) \<noteq> 0"
    by (rule tfidf_row_nonzero)
  then show "l2_norm (transform corpus vocabulary d) = 1"
    unfolding transform_def by (rule l2_norm_normalize)
next
  assume "set d \<inter> set vocabulary = {}"
  then have row: "tfidf_row corpus vocabulary d = replicate (length vocabulary) 0"
    by (rule tfidf_row_zero)
  have "l2_norm (replicate (length vocabulary) 0) = 0"
    by (simp add: l2_norm_zero_iff)
  with row show "transform corpus vocabulary d = replicate (length vocabulary) 0"
    by (simp add: transform_def l2_normalize_def)
qed

theorem transform_unit_norm_witness:
  "set [''action'', ''hero''] \<inter> set two_vocabulary \<noteq> {} \<and>
   l2_norm (transform two_docs two_vocabulary [''action'', ''hero'']) = 1 \<and>
   set [''comedy''] \<inter> set two_vocabulary = {} \<and>
   transform two_docs two_vocabulary [''comedy''] = [0, 0, 0]"
proof -
  have h1: "set [''action'', ''hero''] \<inter> set two_vocabulary \<noteq> {}"
    by (simp add: two_vocabulary_def)
  have h2: "set [''comedy''] \<inter> set two_vocabulary = {}"
    by (simp add: two_vocabulary_def)
  have l: "replicate (length two_vocabulary) (0::real) = [0, 0, 0]"
    by (simp add: two_vocabulary_def)
  have a: "l2_norm (transform two_docs two_vocabulary [''action'', ''hero'']) = 1"
    using transform_unit_norm [of "[''action'', ''hero'']" two_vocabulary two_docs] h1
    by blast
  have b: "transform two_docs two_vocabulary [''comedy''] = [0, 0, 0]"
    using transform_unit_norm [of "[''comedy'']" two_vocabulary two_docs] h2 l
    by metis
  from h1 a h2 b show ?thesis
    by blast
qed

lemma count_list_filter: "P t \<Longrightarrow> count_list (filter P d) t = count_list d t"
  by (induction d) auto

lemma tfidf_row_filter:
  "tfidf_row corpus vocabulary (filter (\<lambda>t. t \<in> set vocabulary) d) = tfidf_row corpus vocabulary d"
  unfolding tfidf_row_def tf_def by (intro map_cong) (simp_all add: count_list_filter)

lemma length_l2_normalize: "length (l2_normalize v) = length v"
  by (simp add: l2_normalize_def Let_def)

text \<open>
  C3, as the code has it. The weight of the vocabulary term \<open>t\<close> of column \<open>i\<close> is its
  count in the document times \<open>ln((1 + N) / (1 + df(t))) + 1\<close>, the smoothed inverse
  document frequency, which is at least 1. A term outside the vocabulary has no column:
  the vector has one entry per vocabulary term, and removing such terms from the
  document leaves it unchanged.
\<close>

theorem tfidf_smoothed_idf:
  assumes "i < length vocabulary"
  shows "tfidf_row corpus vocabulary d ! i =
           real (tf (vocabulary ! i) d) *
             (ln ((1 + real (length corpus)) / (1 + real (doc_freq corpus (vocabulary ! i)))) + 1) \<and>
         1 \<le> ln ((1 + real (length corpus)) / (1 + real (doc_freq corpus (vocabulary ! i)))) + 1 \<and>
         length (transform corpus vocabulary d) = length vocabulary \<and>
         transform corpus vocabulary (filter (\<lambda>t. t \<in> set vocabulary) d) =
           transform corpus vocabulary d"
proof -
  have "tfidf_row corpus vocabulary d ! i = real (tf (vocabulary ! i) d) * idf corpus (vocabulary ! i)"
    using assms by (simp add: tfidf_row_def)
  moreover have "length (transform corpus vocabulary d) = length vocabulary"
    by (simp add: transform_def length_l2_normalize tfidf_row_def)
  moreover have "transform corpus vocabulary (filter (\<lambda>t. t \<in> set vocabulary) d) =
      transform corpus vocabulary d"
    by (simp add: transform_def tfidf_row_filter)
  ultimately show ?thesis
    using idf_ge_1 [of corpus "vocabulary ! i"] by (simp add: idf_def)
qed

text \<open>
  The claim C3 gives \<open>ln(N / df(t))\<close>. For a term that occurs in both documents of a
  two-document corpus that is \<open>ln(2 / 2) = 0\<close>, while the inverse document frequency
  of the encoder is \<open>ln(3 / 3) + 1 = 1\<close>.
\<close>

theorem idf_not_plain_log:
  "''action'' \<in> set two_vocabulary \<and>
   idf two_docs ''action'' = 1 \<and>
   ln (real (length two_docs) / real (doc_freq two_docs ''action'')) = 0"
  by (simp add: two_docs_def two_vocabulary_def idf_def doc_freq_def)

theorem tfidf_smoothed_idf_witness:
  "(0::nat) < length two_vocabulary \<and>
   tfidf_row two_docs two_vocabulary [''action'', ''hero''] ! 0 =
     real (tf (two_vocabulary ! 0) [''action'', ''hero'']) *
       (ln ((1 + real (length two_docs)) / (1 + real (doc_freq two_docs (two_vocabulary ! 0)))) + 1) \<and>
   length (transform two_docs two_vocabulary [''action'', ''hero'']) = length two_vocabulary"
proof -
  have h: "(0::nat) < length two_vocabulary"
    by (simp add: two_vocabulary_def)
  from tfidf_smoothed_idf [OF h, of two_docs "[''action'', ''hero'']"] h show ?thesis
    by blast
qed

end
